theory Spec2Isabelle
  imports Complex_Main "HOL-Library.Word"
begin

unbundle bit_operations_syntax

section \<open>Common types\<close>

type_synonym byte = "8 word"

text \<open>
  Failures of the C++ code: a thrown exception (\<open>throw format(...)\<close>), a failed
  \<open>LLAMA_ASSERT\<close>, or a read outside a buffer.
\<close>

datatype llama_error =
    IoError
  | UnknownMagicVersion "32 word" "32 word"
  | AssertionFailed
  | OutOfBounds
  | DivisionByZero

section \<open>File access and magic detection\<close>

text \<open>
  A file opened for reading: its bytes and the read position (\<open>tell()\<close>).
\<close>

record llama_file =
  data :: "byte list"
  pos :: nat

definition open_file :: "byte list \<Rightarrow> llama_file" where
  "open_file bs = \<lparr>data = bs, pos = 0\<rparr>"

text \<open>The value of a little-endian byte sequence.\<close>

fun le_nat :: "byte list \<Rightarrow> nat" where
  "le_nat [] = 0"
| "le_nat (b # bs) = unat b + 256 * le_nat bs"

text \<open>
  Modelled from the spec: \<open>llama_file::read_u32\<close> is declared in \<open>llama_util.h\<close>, which is
  not among the sources. The spec has the file wrapper read little-endian primitive
  integers and fail with \<open>IoError\<close>; a read of four bytes that passes the end of the file
  fails.
\<close>

definition read_u32 :: "llama_file \<Rightarrow> llama_error + (32 word \<times> llama_file)" where
  "read_u32 f =
     (if pos f + 4 \<le> length (data f)
      then Inr (word_of_nat (le_nat (take 4 (drop (pos f) (data f)))), f\<lparr>pos := pos f + 4\<rparr>)
      else Inl IoError)"

text \<open>
  The multi-character literals \<open>'ggml'\<close>, \<open>'ggmf'\<close> and \<open>'ggjt'\<close>: the compilers the
  program is built with give such a literal the value of its characters read as base-256
  digits, first character most significant.
\<close>

definition magic_ggml :: "32 word" where "magic_ggml = 0x67676d6c"
definition magic_ggmf :: "32 word" where "magic_ggmf = 0x67676d66"
definition magic_ggjt :: "32 word" where "magic_ggjt = 0x67676a74"

datatype llama_file_version =
    LLAMA_FILE_VERSION_GGML
  | LLAMA_FILE_VERSION_GGMF_V1
  | LLAMA_FILE_VERSION_GGJT_V1

text \<open>\<open>llama_file_loader::read_magic\<close>, returning the version it stores in \<open>file_version\<close>.\<close>

definition classify_magic :: "32 word \<Rightarrow> 32 word \<Rightarrow> llama_error + llama_file_version" where
  "classify_magic magic version =
     (if magic = magic_ggml \<and> version = 0 then Inr LLAMA_FILE_VERSION_GGML
      else if magic = magic_ggmf \<and> version = 1 then Inr LLAMA_FILE_VERSION_GGMF_V1
      else if magic = magic_ggjt \<and> version = 1 then Inr LLAMA_FILE_VERSION_GGJT_V1
      else Inl (UnknownMagicVersion magic version))"

definition read_magic :: "llama_file \<Rightarrow> llama_error + (llama_file_version \<times> llama_file)" where
  "read_magic f =
     (case read_u32 f of
        Inl e \<Rightarrow> Inl e
      | Inr (magic, f1) \<Rightarrow>
          (if magic \<noteq> magic_ggml
           then (case read_u32 f1 of
                   Inl e \<Rightarrow> Inl e
                 | Inr (version, f2) \<Rightarrow>
                     (case classify_magic magic version of
                        Inl e \<Rightarrow> Inl e
                      | Inr v \<Rightarrow> Inr (v, f2)))
           else (case classify_magic magic 0 of
                   Inl e \<Rightarrow> Inl e
                 | Inr v \<Rightarrow> Inr (v, f1))))"

section \<open>Vocabulary\<close>

type_synonym token = "byte list"

text \<open>\<open>llama_vocab::id\<close> and \<open>llama_token\<close> are 32-bit signed integers.\<close>

type_synonym llama_token = int

text \<open>
  A score is a \<open>float\<close>. The tokenizer only compares scores; the order of finite floats is
  the order of the reals they denote.
\<close>

record token_score =
  tok :: token
  score :: real

record llama_vocab =
  token_to_id :: "token \<rightharpoonup> llama_token"
  id_to_token :: "token_score list"

section \<open>Tokenizer\<close>











text \<open>
  In the tokenizer \<open>None\<close> stands for a run without a defined result: a read outside the
  symbol vector or outside the text, or a loop that does not end.
\<close>

definition in_range :: "'a list \<Rightarrow> int \<Rightarrow> bool" where
  "in_range xs i = (0 \<le> i \<and> i < int (length xs))"




























section \<open>Session state\<close>

text \<open>\<open>llama_hparams\<close>; its fields are \<open>uint32_t\<close>.\<close>

record llama_hparams =
  n_vocab :: "32 word"
  n_ctx :: "32 word"
  n_embd :: "32 word"
  n_mult :: "32 word"
  n_head :: "32 word"
  n_layer :: "32 word"
  n_rot :: "32 word"

text \<open>
  \<open>llama_kv_cache\<close>: \<open>kv_buf\<close> is the content of \<open>buf\<close> (the tensors \<open>k\<close> and \<open>v\<close> live in
  it), \<open>kv_ctx\<close> says whether \<open>ctx\<close> is set, and \<open>kv_n\<close> is the field
  \<open>int n; // number of tokens currently in the cache\<close>.
\<close>

record llama_kv_cache =
  kv_buf :: "byte list"
  kv_ctx :: bool
  kv_n :: int

text \<open>
  \<open>llama_context\<close>, with the model's \<open>hparams\<close> and \<open>kv_self\<close> as fields of their own. The
  two vectors carry their capacity next to their elements. The type \<open>'f\<close> of a \<open>float\<close> is
  a parameter: serialisation sees a float as its 32 bits, the sampler as the real number
  it denotes. The type \<open>'rng\<close> is the state of the \<open>std::mt19937\<close> generator. The counters
  are 32- and 64-bit integers that are not taken to overflow. The compute and scratch
  buffers are not part of the model.
\<close>

record ('f, 'rng) llama_context =
  rng :: 'rng
  t_load_us :: int
  t_start_us :: int
  has_evaluated_once :: bool
  t_sample_us :: int
  t_eval_us :: int
  t_p_eval_us :: int
  n_sample :: int
  n_eval :: int
  n_p_eval :: int
  hparams :: llama_hparams
  kv_self :: llama_kv_cache
  vocab :: llama_vocab
  mem_per_token :: nat
  logits :: "'f list"
  logits_capacity :: nat
  logits_all :: bool
  embedding :: "'f list"
  embedding_capacity :: nat

text \<open>
  The capacity of a \<open>std::vector\<close> after \<open>resize(n)\<close>. A vector that has room keeps its
  storage; how much a vector without room grows is the library's choice (here the larger
  of \<open>n\<close> and twice the old size), and it is at least \<open>n\<close>.
\<close>

definition resize_capacity :: "nat \<Rightarrow> nat \<Rightarrow> nat \<Rightarrow> nat" where
  "resize_capacity cap sz n = (if n \<le> cap then cap else max n (2 * sz))"

text \<open>The conversion of a \<open>size_t\<close> to \<open>int\<close>.\<close>

definition int_of_size_t :: "nat \<Rightarrow> int" where
  "int_of_size_t n = sint (word_of_nat n :: 32 word)"

section \<open>Session API: vocabulary and tokenization\<close>

definition llama_n_vocab :: "('f, 'rng) llama_context \<Rightarrow> int" where
  "llama_n_vocab ctx = int_of_size_t (length (id_to_token (vocab ctx)))"

text \<open>
  \<open>llama_token_to_str\<close>: \<open>Inr None\<close> is the null pointer, \<open>Inr (Some t)\<close> a pointer to the
  bytes \<open>t\<close>. An index outside the vector is a read out of bounds.
\<close>

definition llama_token_to_str :: "('f, 'rng) llama_context \<Rightarrow> llama_token \<Rightarrow> llama_error + token option" where
  "llama_token_to_str ctx token =
     (if token \<ge> llama_n_vocab ctx then Inr None
      else if \<not> in_range (id_to_token (vocab ctx)) token then Inl OutOfBounds
      else Inr (Some (tok (id_to_token (vocab ctx) ! nat token))))"


section \<open>Sampling\<close>

text \<open>
  The greedy branch: the loop \<open>for (int i = 1; i < n_logits; ++i)\<close> over the pair
  \<open>(max_logit, max_id)\<close>.
\<close>

definition argmax_step :: "real list \<Rightarrow> nat \<Rightarrow> real \<times> llama_token \<Rightarrow> real \<times> llama_token" where
  "argmax_step plogits i m =
     (if plogits ! i > fst m then (plogits ! i, int i) else m)"

definition sample_argmax :: "real list \<Rightarrow> nat \<Rightarrow> llama_token" where
  "sample_argmax plogits n_logits = snd (fold (argmax_step plogits) [1..<n_logits] (plogits ! 0, 0))"

text \<open>
  The loop that scales the logits by \<open>1.0f/temp\<close> and applies the repetition penalty,
  giving the vector \<open>logits_id\<close> of pairs (scaled logit, id). Float arithmetic is taken as
  exact.
\<close>

definition scale_logit :: "real list \<Rightarrow> llama_token list \<Rightarrow> real \<Rightarrow> real \<Rightarrow> nat \<Rightarrow> real \<times> llama_token" where
  "scale_logit plogits last_n_tokens scale repeat_penalty i =
     (if int i \<in> set last_n_tokens
      then (if plogits ! i < 0
            then (plogits ! i * scale * repeat_penalty, int i)
            else (plogits ! i * scale / repeat_penalty, int i))
      else (plogits ! i * scale, int i))"

definition scale_logits :: "real list \<Rightarrow> nat \<Rightarrow> llama_token list \<Rightarrow> real \<Rightarrow> real \<Rightarrow> (real \<times> llama_token) list" where
  "scale_logits plogits n_logits last_n_tokens temp repeat_penalty =
     (let scale = 1 / temp
      in map (scale_logit plogits last_n_tokens scale repeat_penalty) [0..<n_logits])"

text \<open>
  \<open>sample_top_k\<close>: \<open>std::partial_sort\<close> by descending logit, then \<open>resize(top_k)\<close>. The
  library does not fix the order of equal logits; the model keeps them in their order.
\<close>

definition sample_top_k :: "(real \<times> llama_token) list \<Rightarrow> nat \<Rightarrow> (real \<times> llama_token) list" where
  "sample_top_k logits_id top_k = take top_k (sort_key (\<lambda>p. - fst p) logits_id)"

text \<open>
  The number of candidates the \<open>top_p\<close> loop keeps: up to and with the first one at which
  the running sum reaches \<open>top_p\<close>, all of them if it never does.
\<close>

fun top_p_keep :: "real \<Rightarrow> real \<Rightarrow> real list \<Rightarrow> nat" where
  "top_p_keep top_p cumsum [] = 0"
| "top_p_keep top_p cumsum (p # ps) =
     (if cumsum + p \<ge> top_p then 1 else 1 + top_p_keep top_p (cumsum + p) ps)"

text \<open>
  The static function \<open>llama_sample_top_p_top_k\<close>. It returns the token and the state of
  the generator afterwards. \<open>expf\<close> is the C library's function and \<open>draw\<close> the library's
  \<open>std::discrete_distribution\<close> applied to the generator: given the state and the
  weights, an index and the next state. \<open>plogits\<close> points at the last \<open>n_logits\<close> entries of
  the logits vector.
\<close>

definition llama_sample_top_p_top_k ::
  "(real \<Rightarrow> real) \<Rightarrow> ('rng \<Rightarrow> real list \<Rightarrow> nat \<times> 'rng) \<Rightarrow> (real, 'rng) llama_context
     \<Rightarrow> llama_token list \<Rightarrow> int \<Rightarrow> real \<Rightarrow> real \<Rightarrow> real \<Rightarrow> llama_error + (llama_token \<times> 'rng)" where
  "llama_sample_top_p_top_k expf draw lctx last_n_tokens top_k top_p temp repeat_penalty =
     (let n_logits = sint (n_vocab (hparams lctx))
      in if n_logits < 1 \<or> int (length (logits lctx)) < n_logits then Inl OutOfBounds
         else (let plogits = drop (length (logits lctx) - nat n_logits) (logits lctx)
               in if temp \<le> 0 then Inr (sample_argmax plogits (nat n_logits), rng lctx)
                  else (let logits_id0 = scale_logits plogits (nat n_logits) last_n_tokens temp repeat_penalty;
                            logits_id1 = sample_top_k logits_id0
                                           (nat (if top_k > 0 then min top_k n_logits else n_logits));
                            maxl = fst (logits_id1 ! 0);
                            ps = map (\<lambda>kv. expf (fst kv - maxl)) logits_id1;
                            probs0 = map (\<lambda>p. p / sum_list ps) ps;
                            keep = (if top_p < 1 then top_p_keep top_p 0 probs0 else length probs0);
                            probs = take keep probs0;
                            logits_id = take keep logits_id1;
                            (idx, rng') = draw (rng lctx) probs
                        in if idx < length logits_id then Inr (snd (logits_id ! idx), rng')
                           else Inl OutOfBounds)))"

section \<open>Quantization\<close>

datatype ggml_type = GGML_TYPE_F32 | GGML_TYPE_F16 | GGML_TYPE_Q4_0 | GGML_TYPE_Q4_1

datatype quantize_error = UnsupportedType ggml_type

text \<open>
  \<open>llama_load_tensor\<close> after \<open>load_data_for\<close>: name, type, shape, size in bytes and the
  bytes read from the input file.
\<close>

record llama_load_tensor =
  lt_name :: string
  lt_type :: ggml_type
  lt_ne :: "32 word list"
  lt_size :: nat
  lt_data :: "byte list"

text \<open>
  \<open>std::string::rfind(str)\<close> as a \<open>size_t\<close>: the last position at which \<open>str\<close> occurs, and
  \<open>npos\<close> (all bits set) if it does not occur.
\<close>

definition npos :: "64 word" where
  "npos = - 1"

fun rfind_from :: "string \<Rightarrow> string \<Rightarrow> nat \<Rightarrow> 64 word" where
  "rfind_from s str 0 = (if take (length str) s = str then 0 else npos)"
| "rfind_from s str (Suc p) =
     (if take (length str) (drop (Suc p) s) = str then word_of_nat (Suc p)
      else rfind_from s str p)"

definition rfind :: "string \<Rightarrow> string \<Rightarrow> 64 word" where
  "rfind s str = (if length str > length s then npos else rfind_from s str (length s - length str))"

text \<open>
  The test of the quantization loop:
  \<open>bool quantize = tensor.name.rfind("weight") == tensor.name.size() - 6; // ends with 'weight'?\<close>
  followed by \<open>quantize &= (tensor.ne.size() == 2);\<close>. The subtraction is one of \<open>size_t\<close>.
\<close>

definition quantize_test :: "llama_load_tensor \<Rightarrow> bool" where
  "quantize_test tensor =
     (let quantize = (rfind (lt_name tensor) ''weight'' = word_of_nat (length (lt_name tensor)) - 6)
      in quantize \<and> length (lt_ne tensor) = 2)"

text \<open>
  The body of the loop for one tensor: the type, data and size handed to
  \<open>write_tensor\<close>. \<open>ggml_quantize\<close> stands for the tensor library's \<open>ggml_quantize_q4_0\<close> and
  \<open>ggml_quantize_q4_1\<close> (with the conversion of F16 input to F32 before them): from the
  target type, the input type, the input bytes, the number of elements and the row
  length it gives the quantized bytes.
\<close>

definition quantize_tensor ::
  "(ggml_type \<Rightarrow> ggml_type \<Rightarrow> byte list \<Rightarrow> nat \<Rightarrow> nat \<Rightarrow> byte list) \<Rightarrow> ggml_type \<Rightarrow> llama_load_tensor
     \<Rightarrow> quantize_error + (ggml_type \<times> byte list \<times> nat)" where
  "quantize_tensor ggml_quantize quantized_type tensor =
     (if \<not> quantize_test tensor
      then Inr (lt_type tensor, lt_data tensor, lt_size tensor)
      else (let new_type = quantized_type;
                nelements = unat (lt_ne tensor ! 0) * unat (lt_ne tensor ! 1)
            in if lt_type tensor = GGML_TYPE_F32 \<or> lt_type tensor = GGML_TYPE_F16
               then (let new_data = ggml_quantize new_type (lt_type tensor) (lt_data tensor) nelements
                                      (unat (lt_ne tensor ! 0))
                     in Inr (new_type, new_data, length new_data))
               else Inl (UnsupportedType (lt_type tensor))))"

section \<open>Evaluation and the KV cache\<close>

text \<open>
  What the tensor library hands back from building and running the graph of one
  evaluation: the content of the KV buffer afterwards, the data of the logits tensor
  (\<open>n_vocab\<close> floats for each of the \<open>N\<close> tokens), the data of the embeddings tensor
  (\<open>n_embd\<close> floats for each token) and \<open>ggml_used_mem\<close>.
\<close>

record 'f ggml_result =
  res_kv_buf :: "byte list"
  res_logits :: "'f list"
  res_embeddings :: "'f list"
  res_used_mem :: nat

text \<open>
  \<open>llama_eval_internal\<close>. \<open>ggml_graph\<close> stands for the graph the function builds and
  has the tensor library run, from the session, the tokens, \<open>n_past\<close> and the thread
  count; \<open>t_begin\<close> and \<open>t_end\<close> are the readings of \<open>ggml_time_us()\<close> at entry and at the
  end. The function assigns to the logits, the embedding, \<open>mem_per_token\<close> and the timing
  counters of the session, and the graph writes keys and values into the buffer of the
  cache; nothing in it assigns to the field \<open>n\<close> of the cache.
\<close>

definition llama_eval_internal ::
  "(('f, 'rng) llama_context \<Rightarrow> llama_token list \<Rightarrow> int \<Rightarrow> int \<Rightarrow> 'f ggml_result) \<Rightarrow> int \<Rightarrow> int
     \<Rightarrow> ('f, 'rng) llama_context \<Rightarrow> llama_token list \<Rightarrow> int \<Rightarrow> int \<Rightarrow> int
     \<Rightarrow> llama_error + (('f, 'rng) llama_context \<times> bool)" where
  "llama_eval_internal ggml_graph t_begin t_end lctx tokens n_tokens n_past n_threads =
     (let N = n_tokens;
          nv = sint (n_vocab (hparams lctx));
          ne = sint (n_embd (hparams lctx))
      in if \<not> kv_ctx (kv_self lctx) then Inl AssertionFailed
         else if N < 0 \<or> int (length tokens) < N then Inl OutOfBounds
         else (let res = ggml_graph lctx (take (nat N) tokens) n_past n_threads;
                   logits_out = (if logits_all lctx then take (nat (nv * N)) (res_logits res)
                                 else take (nat nv) (drop (nat (nv * (N - 1))) (res_logits res)));
                   embedding_out = take (nat ne) (drop (nat (ne * (N - 1))) (res_embeddings res))
               in if \<not> logits_all lctx \<and> N < 1 then Inl OutOfBounds
                  else if embedding lctx \<noteq> [] \<and> N < 1 then Inl OutOfBounds
                  else if mem_per_token lctx = 0 \<and> N = 0 then Inl DivisionByZero
                  else (let lctx1 = lctx\<lparr>kv_self := (kv_self lctx)\<lparr>kv_buf := res_kv_buf res\<rparr>,
                                          logits := logits_out,
                                          logits_capacity := resize_capacity (logits_capacity lctx)
                                             (length (logits lctx)) (length logits_out)\<rparr>;
                            lctx2 = (if embedding lctx1 \<noteq> []
                                     then lctx1\<lparr>embedding := embedding_out,
                                                embedding_capacity := resize_capacity (embedding_capacity lctx1)
                                                   (length (embedding lctx1)) (length embedding_out)\<rparr>
                                     else lctx1);
                            lctx3 = (if mem_per_token lctx2 = 0
                                     then lctx2\<lparr>mem_per_token := res_used_mem res div nat N\<rparr>
                                     else lctx2);
                            lctx4 = (if N = 1
                                     then lctx3\<lparr>t_eval_us := t_eval_us lctx3 + (t_end - t_begin),
                                                n_eval := n_eval lctx3 + 1\<rparr>
                                     else if N > 1
                                     then lctx3\<lparr>t_p_eval_us := t_p_eval_us lctx3 + (t_end - t_begin),
                                                n_p_eval := n_p_eval lctx3 + N\<rparr>
                                     else lctx3)
                        in Inr (lctx4, True))))"

text \<open>\<open>llama_eval\<close>; \<open>t_now\<close> is the reading of \<open>ggml_time_us()\<close> after the evaluation.\<close>

definition llama_eval ::
  "(('f, 'rng) llama_context \<Rightarrow> llama_token list \<Rightarrow> int \<Rightarrow> int \<Rightarrow> 'f ggml_result) \<Rightarrow> int \<Rightarrow> int \<Rightarrow> int
     \<Rightarrow> ('f, 'rng) llama_context \<Rightarrow> llama_token list \<Rightarrow> int \<Rightarrow> int \<Rightarrow> int
     \<Rightarrow> llama_error + (('f, 'rng) llama_context \<times> int)" where
  "llama_eval ggml_graph t_begin t_end t_now ctx tokens n_tokens n_past n_threads =
     (case llama_eval_internal ggml_graph t_begin t_end ctx tokens n_tokens n_past n_threads of
        Inl e \<Rightarrow> Inl e
      | Inr (ctx1, ok) \<Rightarrow>
          (if \<not> ok then Inr (ctx1, 1)
           else if \<not> has_evaluated_once ctx1
           then Inr (ctx1\<lparr>t_load_us := t_now - t_start_us ctx1, has_evaluated_once := True\<rparr>, 0)
           else Inr (ctx1, 0)))"

definition llama_get_kv_cache_size :: "('f, 'rng) llama_context \<Rightarrow> nat" where
  "llama_get_kv_cache_size ctx = length (kv_buf (kv_self ctx))"

definition llama_get_kv_cache_token_count :: "('f, 'rng) llama_context \<Rightarrow> int" where
  "llama_get_kv_cache_token_count ctx = kv_n (kv_self ctx)"

text \<open>\<open>llama_set_kv_cache\<close>; \<open>kv_cache\<close> is the content of the caller's buffer.\<close>

definition llama_set_kv_cache ::
  "('f, 'rng) llama_context \<Rightarrow> byte list \<Rightarrow> nat \<Rightarrow> int \<Rightarrow> llama_error + ('f, 'rng) llama_context" where
  "llama_set_kv_cache ctx kv_cache n_size n_token_count =
     (if length (kv_buf (kv_self ctx)) \<noteq> n_size then Inl AssertionFailed
      else if length kv_cache < n_size then Inl OutOfBounds
      else Inr (ctx\<lparr>kv_self := (kv_self ctx)\<lparr>kv_buf := take n_size kv_cache,
                                             kv_n := n_token_count\<rparr>\<rparr>))"

section \<open>Session state as bytes\<close>

text \<open>
  \<open>memcpy\<close> of an integer of \<open>k\<close> bytes with the value \<open>v\<close>, and of floats, which the
  functions of this section see as their 32 bits. The platform is little-endian with
  \<open>size_t\<close> of 8 bytes and \<open>int\<close> and \<open>float\<close> of 4.
\<close>

fun le_bytes :: "nat \<Rightarrow> nat \<Rightarrow> byte list" where
  "le_bytes 0 v = []"
| "le_bytes (Suc k) v = word_of_nat (v mod 256) # le_bytes k (v div 256)"

definition floats_bytes :: "32 word list \<Rightarrow> byte list" where
  "floats_bytes ws = concat (map (\<lambda>w. le_bytes 4 (unat w)) ws)"

fun floats_of :: "nat \<Rightarrow> byte list \<Rightarrow> 32 word list" where
  "floats_of 0 bs = []"
| "floats_of (Suc k) bs = word_of_nat (le_nat (take 4 bs)) # floats_of k (drop 4 bs)"

definition bind_result :: "llama_error + 'a \<Rightarrow> ('a \<Rightarrow> llama_error + 'b) \<Rightarrow> llama_error + 'b" where
  "bind_result m f = (case m of Inl e \<Rightarrow> Inl e | Inr x \<Rightarrow> f x)"

text \<open>\<open>llama_get_state_size\<close>. Sizes are those of objects in memory, below \<open>2 ^ 64\<close>.\<close>

definition llama_get_state_size :: "('f, 'rng) llama_context \<Rightarrow> nat" where
  "llama_get_state_size ctx =
     (let s_rng_size = 8;
          s_rng = 64 * 1024;
          s_logits_capacity = 8;
          s_logits_size = 8;
          s_logits = logits_capacity ctx * 4;
          s_embedding_size = 8;
          s_embedding = length (embedding ctx) * 4;
          s_kv_size = 8;
          s_kv_ntok = 4;
          s_kv = llama_get_kv_cache_size ctx
      in s_rng_size + s_rng + s_logits_capacity + s_logits_size + s_logits + s_embedding_size
           + s_embedding + s_kv_size + s_kv_ntok + s_kv)"

text \<open>
  The cursor \<open>out\<close> of \<open>llama_copy_state_data\<close> is modelled by the bytes between \<open>dest\<close>
  and \<open>out\<close>: \<open>put\<close> is \<open>memcpy(out, bs, n); out += n\<close>, and \<open>advance\<close> is \<open>out += n\<close> alone,
  which leaves the bytes of the destination as they were. Both fail when the cursor
  would leave the destination, whose content before the call is \<open>dest\<close>. The size of a
  vector is at most its capacity, so the cursor never moves back.
\<close>

definition put :: "byte list \<Rightarrow> byte list \<Rightarrow> byte list \<Rightarrow> llama_error + byte list" where
  "put dest bs out = (if length out + length bs \<le> length dest then Inr (out @ bs) else Inl OutOfBounds)"

definition advance :: "byte list \<Rightarrow> nat \<Rightarrow> byte list \<Rightarrow> llama_error + byte list" where
  "advance dest n out =
     (if length out + n \<le> length dest then Inr (out @ take n (drop (length out) dest))
      else Inl OutOfBounds)"

text \<open>
  \<open>llama_copy_state_data\<close>: the destination afterwards and the number of bytes written.
  \<open>rng_write\<close> is the library's \<open>operator<<\<close> of the generator.
\<close>

definition llama_copy_state_data ::
  "('rng \<Rightarrow> byte list) \<Rightarrow> (32 word, 'rng) llama_context \<Rightarrow> byte list \<Rightarrow> llama_error + (byte list \<times> nat)" where
  "llama_copy_state_data rng_write ctx dest =
     (let rng_str = rng_write (rng ctx);
          rng_size = length rng_str
      in if rng_size > 64 * 1024 then Inl OutOfBounds
         else (let rng_buf = rng_str @ replicate (64 * 1024 - rng_size) 0;
                   logits_cap = logits_capacity ctx;
                   logits_size = length (logits ctx);
                   embedding_size = length (embedding ctx);
                   kv_size = llama_get_kv_cache_size ctx;
                   kv_ntok = llama_get_kv_cache_token_count ctx
               in bind_result (put dest (le_bytes 8 rng_size) []) (\<lambda>out.
                  bind_result (put dest rng_buf out) (\<lambda>out.
                  bind_result (put dest (le_bytes 8 logits_cap) out) (\<lambda>out.
                  bind_result (put dest (le_bytes 8 logits_size) out) (\<lambda>out.
                  bind_result (if logits_size \<noteq> 0
                               then bind_result (put dest (floats_bytes (logits ctx)) out) (\<lambda>out'.
                                      advance dest (logits_cap * 4 - logits_size * 4) out')
                               else advance dest (logits_cap * 4) out) (\<lambda>out.
                  bind_result (put dest (le_bytes 8 embedding_size) out) (\<lambda>out.
                  bind_result (if embedding_size \<noteq> 0
                               then put dest (floats_bytes (embedding ctx)) out
                               else Inr out) (\<lambda>out.
                  bind_result (put dest (le_bytes 8 kv_size) out) (\<lambda>out.
                  bind_result (put dest (le_bytes 4 (nat (kv_ntok mod 2 ^ 32))) out) (\<lambda>out.
                  bind_result (if kv_size \<noteq> 0 then put dest (kv_buf (kv_self ctx)) out
                               else Inr out) (\<lambda>out.
                  (let written = length out;
                       expected = llama_get_state_size ctx
                   in if written \<noteq> expected then Inl AssertionFailed
                      else Inr (out @ drop written dest, written))))))))))))))"

text \<open>
  The bytes \<open>llama_copy_state_data\<close> leaves between \<open>dest\<close> and \<open>out\<close>, field by field.
  The floats between the size and the capacity of the logits are not written and keep
  the content of the destination.
\<close>

definition state_blob :: "('rng \<Rightarrow> byte list) \<Rightarrow> (32 word, 'rng) llama_context \<Rightarrow> byte list \<Rightarrow> byte list" where
  "state_blob rng_write ctx dest =
     le_bytes 8 (length (rng_write (rng ctx))) @
     (rng_write (rng ctx) @ replicate (65536 - length (rng_write (rng ctx))) 0) @
     le_bytes 8 (logits_capacity ctx) @
     le_bytes 8 (length (logits ctx)) @
     floats_bytes (logits ctx) @
     take (logits_capacity ctx * 4 - length (logits ctx) * 4) (drop (65560 + length (logits ctx) * 4) dest) @
     le_bytes 8 (length (embedding ctx)) @
     floats_bytes (embedding ctx) @
     le_bytes 8 (length (kv_buf (kv_self ctx))) @
     le_bytes 4 (nat (kv_n (kv_self ctx) mod 2 ^ 32)) @
     kv_buf (kv_self ctx)"

text \<open>
  The cursor \<open>in\<close> of \<open>llama_set_state_data\<close> is modelled by the bytes from \<open>in\<close> on and the
  number of bytes before it: \<open>get\<close> is \<open>memcpy(&x, in, n); in += n\<close>.
\<close>

definition get :: "nat \<Rightarrow> byte list \<times> nat \<Rightarrow> llama_error + (byte list \<times> (byte list \<times> nat))" where
  "get n inp =
     (if n \<le> length (fst inp) then Inr (take n (fst inp), (drop n (fst inp), snd inp + n))
      else Inl OutOfBounds)"

text \<open>
  \<open>llama_set_state_data\<close>: the session afterwards and the number of bytes read.
  \<open>rng_read\<close> is the library's \<open>operator>>\<close> of the generator, \<open>None\<close> when the stream's fail
  bit is set. The logits are resized and overwritten; the embedding is overwritten in its
  storage, so that its size stays.
\<close>

definition llama_set_state_data ::
  "(byte list \<Rightarrow> 'rng option) \<Rightarrow> (32 word, 'rng) llama_context \<Rightarrow> byte list
     \<Rightarrow> llama_error + ((32 word, 'rng) llama_context \<times> nat)" where
  "llama_set_state_data rng_read ctx src =
     bind_result (get 8 (src, 0)) (\<lambda>(b, inp). let rng_size = le_nat b in
     bind_result (get (64 * 1024) inp) (\<lambda>(rng_buf, inp).
     if rng_size > 64 * 1024 then Inl OutOfBounds
     else (case rng_read (take rng_size rng_buf) of
        None \<Rightarrow> Inl AssertionFailed
      | Some g \<Rightarrow>
     bind_result (get 8 inp) (\<lambda>(b, inp). let logits_cap = le_nat b in
     bind_result (get 8 inp) (\<lambda>(b, inp). let logits_size = le_nat b in
     if logits_capacity ctx \<noteq> logits_cap then Inl AssertionFailed
     else if logits_size \<noteq> 0 \<and> length (fst inp) < logits_size * 4 then Inl OutOfBounds
     else (let ctx1 = (if logits_size \<noteq> 0
                       then ctx\<lparr>rng := g,
                                logits := floats_of logits_size (take (logits_size * 4) (fst inp)),
                                logits_capacity := resize_capacity (logits_capacity ctx)
                                                     (length (logits ctx)) logits_size\<rparr>
                       else ctx\<lparr>rng := g\<rparr>) in
     bind_result (get (logits_cap * 4) inp) (\<lambda>(skipped, inp).
     bind_result (get 8 inp) (\<lambda>(b, inp). let embedding_size = le_nat b in
     if embedding_capacity ctx1 \<noteq> embedding_size then Inl AssertionFailed
     else
     bind_result (if embedding_size \<noteq> 0
                  then bind_result (get (embedding_size * 4) inp) (\<lambda>(b, inp).
                         Inr (ctx1\<lparr>embedding := take (length (embedding ctx1))
                                                    (floats_of embedding_size b)\<rparr>, inp))
                  else Inr (ctx1, inp)) (\<lambda>(ctx2, inp).
     bind_result (get 8 inp) (\<lambda>(b, inp). let kv_size = le_nat b in
     bind_result (get 4 inp) (\<lambda>(b, inp). let kv_ntok = sint (word_of_nat (le_nat b) :: 32 word) in
     bind_result (if kv_size \<noteq> 0
                  then (if length (kv_buf (kv_self ctx2)) \<noteq> kv_size then Inl AssertionFailed
                        else bind_result (get kv_size inp) (\<lambda>(b, inp).
                               Inr (ctx2\<lparr>kv_self := (kv_self ctx2)\<lparr>kv_buf := b\<rparr>\<rparr>, inp)))
                  else Inr (ctx2, inp)) (\<lambda>(ctx3, inp).
     (let ctx4 = ctx3\<lparr>kv_self := (kv_self ctx3)\<lparr>kv_n := kv_ntok\<rparr>\<rparr>;
          nread = snd inp;
          expected = llama_get_state_size ctx4
      in if nread \<noteq> expected then Inl AssertionFailed
         else Inr (ctx4, nread))))))))))))))"

section \<open>Data of the scenarios\<close>

text \<open>
  The vocabulary of the merge-order scenario: ids 10 to 14 are the tokens "a", "b", "ab",
  "abc" and "c" with their scores; ids 0 to 9 are empty tokens that are not keys.
\<close>

definition scenario_vocab :: llama_vocab where
  "scenario_vocab =
     \<lparr>token_to_id = [[0x61] \<mapsto> 10, [0x62] \<mapsto> 11, [0x61, 0x62] \<mapsto> 12,
                     [0x61, 0x62, 0x63] \<mapsto> 13, [0x63] \<mapsto> 14],
      id_to_token = replicate 10 \<lparr>tok = [], score = 0\<rparr> @
        [\<lparr>tok = [0x61], score = 0\<rparr>, \<lparr>tok = [0x62], score = 0\<rparr>,
         \<lparr>tok = [0x61, 0x62], score = 1\<rparr>, \<lparr>tok = [0x61, 0x62, 0x63], score = 2\<rparr>,
         \<lparr>tok = [0x63], score = 0\<rparr>]\<rparr>"

definition empty_vocab :: llama_vocab where
  "empty_vocab = \<lparr>token_to_id = Map.empty, id_to_token = []\<rparr>"

text \<open>A session around a vocabulary and a logits vector, for the scenarios.\<close>

definition example_hparams :: "nat \<Rightarrow> llama_hparams" where
  "example_hparams nv =
     \<lparr>n_vocab = word_of_nat nv, n_ctx = 4, n_embd = 8, n_mult = 1, n_head = 2, n_layer = 2, n_rot = 4\<rparr>"

definition example_session :: "llama_vocab \<Rightarrow> 'f list \<Rightarrow> ('f, nat) llama_context" where
  "example_session voc lg =
     \<lparr>rng = 0, t_load_us = 0, t_start_us = 0, has_evaluated_once = False,
      t_sample_us = 0, t_eval_us = 0, t_p_eval_us = 0, n_sample = 0, n_eval = 0, n_p_eval = 0,
      hparams = example_hparams (length lg),
      kv_self = \<lparr>kv_buf = replicate 16 0, kv_ctx = True, kv_n = 0\<rparr>,
      vocab = voc, mem_per_token = 0,
      logits = lg, logits_capacity = length lg, logits_all = False,
      embedding = [], embedding_capacity = 0\<rparr>"

text \<open>A two-dimensional F32 tensor with a name of five characters.\<close>

definition short_name_tensor :: llama_load_tensor where
  "short_name_tensor =
     \<lparr>lt_name = ''abcde'', lt_type = GGML_TYPE_F32, lt_ne = [2, 2], lt_size = 16,
      lt_data = replicate 16 0\<rparr>"

section \<open>Properties of magic detection\<close>

lemma le_nat_bound: "le_nat bs < 256 ^ length bs"
proof (induction bs)
  case Nil
  show ?case by simp
next
  case (Cons b bs)
  have "unat b < 256" using unsigned_less [of b, where 'a = nat] by simp
  moreover have "le_nat bs + 1 \<le> 256 ^ length bs" using Cons.IH by simp
  then have "256 * le_nat bs + 256 \<le> 256 * 256 ^ length bs" by simp
  ultimately show ?case by simp
qed

lemma unat_byte: "unat (b::byte) < 256"
  using unsigned_less [of b, where 'a = nat] by simp

lemma digits_inj:
  fixes a b a' b' :: nat
  assumes "a < 256" "a' < 256" "a + 256 * b = a' + 256 * b'"
  shows "a = a' \<and> b = b'"
proof -
  from assms(3) have "(a + 256 * b) mod 256 = (a' + 256 * b') mod 256" by simp
  with assms(1,2) have "a = a'" by simp
  with assms(3) show ?thesis by simp
qed

lemma le_nat_inj:
  "length xs = length ys \<Longrightarrow> le_nat xs = le_nat ys \<Longrightarrow> xs = ys"
proof (induction xs ys rule: list_induct2)
  case Nil
  show ?case by simp
next
  case (Cons x xs y ys)
  from Cons.prems have "unat x + 256 * le_nat xs = unat y + 256 * le_nat ys" by simp
  with unat_byte [of x] unat_byte [of y] have "unat x = unat y \<and> le_nat xs = le_nat ys"
    by (intro digits_inj)
  with Cons.IH show ?case by (simp add: word_unat_eq_iff)
qed

lemma word_of_nat_inj32:
  assumes "a < 2 ^ 32" "b < 2 ^ 32" "(word_of_nat a :: 32 word) = word_of_nat b"
  shows "a = b"
proof -
  from assms(3) have "unat (word_of_nat a :: 32 word) = unat (word_of_nat b :: 32 word)" by simp
  then have "a mod 2 ^ 32 = b mod 2 ^ 32" by (simp only: unat_of_nat len_of_numeral_defs) simp
  then show ?thesis using assms(1,2) by simp
qed

lemma u32_of_le_inj:
  assumes "length xs = 4" "length ys = 4"
    and "(word_of_nat (le_nat xs) :: 32 word) = word_of_nat (le_nat ys)"
  shows "xs = ys"
proof -
  have "le_nat xs < 2 ^ 32" "le_nat ys < 2 ^ 32"
    using le_nat_bound [of xs] le_nat_bound [of ys] assms(1,2) by simp_all
  then have "le_nat xs = le_nat ys" using assms(3) by (rule word_of_nat_inj32)
  then show ?thesis using assms(1,2) by (intro le_nat_inj) simp_all
qed

lemma magic_bytes:
  "magic_ggml = word_of_nat (le_nat [0x6C, 0x6D, 0x67, 0x67])"
  "magic_ggmf = word_of_nat (le_nat [0x66, 0x6D, 0x67, 0x67])"
  "magic_ggjt = word_of_nat (le_nat [0x74, 0x6A, 0x67, 0x67])"
  "(1 :: 32 word) = word_of_nat (le_nat [1, 0, 0, 0])"
  by (simp_all add: magic_ggml_def magic_ggmf_def magic_ggjt_def)

lemma read_magic_8:
  "read_magic (open_file ([b0, b1, b2, b3, b4, b5, b6, b7] @ rest)) =
     (let magic = word_of_nat (le_nat [b0, b1, b2, b3]);
          f1 = \<lparr>data = [b0, b1, b2, b3, b4, b5, b6, b7] @ rest, pos = 4\<rparr>;
          f2 = \<lparr>data = [b0, b1, b2, b3, b4, b5, b6, b7] @ rest, pos = 8\<rparr>
      in if magic \<noteq> magic_ggml
         then (case classify_magic magic (word_of_nat (le_nat [b4, b5, b6, b7])) of
                 Inl e \<Rightarrow> Inl e | Inr v \<Rightarrow> Inr (v, f2))
         else (case classify_magic magic 0 of Inl e \<Rightarrow> Inl e | Inr v \<Rightarrow> Inr (v, f1)))"
  by (simp add: read_magic_def read_u32_def open_file_def Let_def)

text \<open>
  Claim C2, as the code has it. \<open>read_u32\<close> reads little-endian, so the magic
  \<open>0x67676d6c\<close> is the bytes \<open>6C 6D 67 67\<close> in the file. A file that begins
  \<open>6C 6D 67 67\<close> is accepted as the legacy version, without a version field; one that begins
  \<open>66 6D 67 67 01 00 00 00\<close> as GGMF v1; one that begins \<open>74 6A 67 67 01 00 00 00\<close> as GGJT
  v1. A file of eight bytes or more that begins in none of these ways is rejected, with the
  magic and the version that were read.
\<close>

theorem read_magic_little_endian:
  "read_magic (open_file ([0x6C, 0x6D, 0x67, 0x67] @ rest)) =
     Inr (LLAMA_FILE_VERSION_GGML, \<lparr>data = [0x6C, 0x6D, 0x67, 0x67] @ rest, pos = 4\<rparr>) \<and>
   read_magic (open_file ([0x66, 0x6D, 0x67, 0x67, 1, 0, 0, 0] @ rest)) =
     Inr (LLAMA_FILE_VERSION_GGMF_V1, \<lparr>data = [0x66, 0x6D, 0x67, 0x67, 1, 0, 0, 0] @ rest, pos = 8\<rparr>) \<and>
   read_magic (open_file ([0x74, 0x6A, 0x67, 0x67, 1, 0, 0, 0] @ rest)) =
     Inr (LLAMA_FILE_VERSION_GGJT_V1, \<lparr>data = [0x74, 0x6A, 0x67, 0x67, 1, 0, 0, 0] @ rest, pos = 8\<rparr>) \<and>
   ([b0, b1, b2, b3] \<noteq> [0x6C, 0x6D, 0x67, 0x67] \<and>
    [b0, b1, b2, b3, b4, b5, b6, b7] \<noteq> [0x66, 0x6D, 0x67, 0x67, 1, 0, 0, 0] \<and>
    [b0, b1, b2, b3, b4, b5, b6, b7] \<noteq> [0x74, 0x6A, 0x67, 0x67, 1, 0, 0, 0] \<longrightarrow>
    read_magic (open_file ([b0, b1, b2, b3, b4, b5, b6, b7] @ tl8)) =
      Inl (UnknownMagicVersion (word_of_nat (le_nat [b0, b1, b2, b3]))
                               (word_of_nat (le_nat [b4, b5, b6, b7]))))"
proof (intro conjI impI)
  show "read_magic (open_file ([0x6C, 0x6D, 0x67, 0x67] @ rest)) =
     Inr (LLAMA_FILE_VERSION_GGML, \<lparr>data = [0x6C, 0x6D, 0x67, 0x67] @ rest, pos = 4\<rparr>)"
    by (simp add: read_magic_def read_u32_def open_file_def magic_ggml_def classify_magic_def)
  show "read_magic (open_file ([0x66, 0x6D, 0x67, 0x67, 1, 0, 0, 0] @ rest)) =
     Inr (LLAMA_FILE_VERSION_GGMF_V1, \<lparr>data = [0x66, 0x6D, 0x67, 0x67, 1, 0, 0, 0] @ rest, pos = 8\<rparr>)"
    by (simp add: read_magic_def read_u32_def open_file_def magic_ggml_def magic_ggmf_def classify_magic_def)
  show "read_magic (open_file ([0x74, 0x6A, 0x67, 0x67, 1, 0, 0, 0] @ rest)) =
     Inr (LLAMA_FILE_VERSION_GGJT_V1, \<lparr>data = [0x74, 0x6A, 0x67, 0x67, 1, 0, 0, 0] @ rest, pos = 8\<rparr>)"
    by (simp add: read_magic_def read_u32_def open_file_def magic_ggml_def magic_ggmf_def magic_ggjt_def classify_magic_def)
next
  assume other: "[b0, b1, b2, b3] \<noteq> [0x6C, 0x6D, 0x67, 0x67] \<and>
    [b0, b1, b2, b3, b4, b5, b6, b7] \<noteq> [0x66, 0x6D, 0x67, 0x67, 1, 0, 0, 0] \<and>
    [b0, b1, b2, b3, b4, b5, b6, b7] \<noteq> [0x74, 0x6A, 0x67, 0x67, 1, 0, 0, 0]"
  define magic :: "32 word" where "magic = word_of_nat (le_nat [b0, b1, b2, b3])"
  define version :: "32 word" where "version = word_of_nat (le_nat [b4, b5, b6, b7])"
  have m: "magic = magic_ggml \<Longrightarrow> [b0, b1, b2, b3] = [0x6C, 0x6D, 0x67, 0x67]"
    "magic = magic_ggmf \<Longrightarrow> [b0, b1, b2, b3] = [0x66, 0x6D, 0x67, 0x67]"
    "magic = magic_ggjt \<Longrightarrow> [b0, b1, b2, b3] = [0x74, 0x6A, 0x67, 0x67]"
    unfolding magic_def magic_bytes by (rule u32_of_le_inj; simp)+
  have v: "version = 1 \<Longrightarrow> [b4, b5, b6, b7] = [1, 0, 0, 0]"
    unfolding version_def magic_bytes by (rule u32_of_le_inj; simp)
  have 1: "magic \<noteq> magic_ggml" using other m(1) by blast
  have 2: "\<not> (magic = magic_ggmf \<and> version = 1)" using other m(2) v by auto
  have 3: "\<not> (magic = magic_ggjt \<and> version = 1)" using other m(3) v by auto
  have "classify_magic magic version = Inl (UnknownMagicVersion magic version)"
    using 1 2 3 by (auto simp: classify_magic_def)
  then show "read_magic (open_file ([b0, b1, b2, b3, b4, b5, b6, b7] @ tl8)) =
      Inl (UnknownMagicVersion (word_of_nat (le_nat [b0, b1, b2, b3]))
                               (word_of_nat (le_nat [b4, b5, b6, b7])))"
    using 1 unfolding read_magic_8 Let_def magic_def [symmetric] version_def [symmetric] by simp
qed

theorem read_magic_little_endian_witness:
  "read_magic (open_file [0x67, 0x67, 0x6D, 0x66, 1, 0, 0, 0]) =
     Inl (UnknownMagicVersion 0x666D6767 1)"
  using read_magic_little_endian [of _ "0x67" "0x67" "0x6D" "0x66" 1 0 0 0 "[]"]
  by simp

text \<open>
  Claim C2 as stated fails: a file whose first bytes are \<open>67 67 6D 6C\<close> (the ASCII text
  "ggml") is read as the magic \<open>0x6c6d6767\<close> and rejected.
\<close>

theorem read_magic_ascii_counterexample:
  "read_magic (open_file [0x67, 0x67, 0x6D, 0x6C, 0, 0, 0, 0]) =
     Inl (UnknownMagicVersion 0x6C6D6767 0)"
  by (simp add: read_magic_def read_u32_def open_file_def magic_ggml_def classify_magic_def
        magic_ggmf_def magic_ggjt_def)

section \<open>Properties of the tokenizer\<close>









section \<open>Properties of the session API\<close>

lemma sint_le_uint: "sint (w :: 32 word) \<le> uint w"
proof -
  have "0 \<le> uint w" by simp
  then have "- 2147483648 \<le> uint w" by linarith
  then show ?thesis by (simp add: sint_uint signed_take_bit_int_less_eq_self_iff)
qed

lemma int_of_size_t_le: "int_of_size_t n \<le> int n"
proof -
  have "sint (word_of_nat n :: 32 word) \<le> uint (word_of_nat n :: 32 word)" by (rule sint_le_uint)
  also have "\<dots> = int (unat (word_of_nat n :: 32 word))" by simp
  also have "\<dots> \<le> int n" by (simp only: unat_of_nat) simp
  finally show ?thesis by (simp add: int_of_size_t_def)
qed

lemma int_of_size_t_small:
  assumes "n < 2 ^ 31"
  shows "int_of_size_t n = int n"
proof -
  have "sint (word_of_nat n :: 32 word) = signed_take_bit 31 (int n)"
    by (simp add: signed_of_nat)
  also have "\<dots> = int n"
    using assms by (intro signed_take_bit_int_eq_self) simp_all
  finally show ?thesis by (simp add: int_of_size_t_def)
qed







text \<open>
  Claim C10. \<open>llama_token_to_str\<close> returns the null pointer for every token id that is at
  least \<open>llama_n_vocab\<close>, and the stored bytes of the token for every id from 0 below
  \<open>llama_n_vocab\<close>; \<open>llama_n_vocab\<close> is the size of the vocabulary when that is below
  \<open>2 ^ 31\<close>.
\<close>

theorem llama_token_to_str_range:
  "(token \<ge> llama_n_vocab ctx \<longrightarrow> llama_token_to_str ctx token = Inr None) \<and>
   (0 \<le> token \<and> token < llama_n_vocab ctx \<longrightarrow>
      llama_token_to_str ctx token = Inr (Some (tok (id_to_token (vocab ctx) ! nat token)))) \<and>
   (length (id_to_token (vocab ctx)) < 2 ^ 31 \<longrightarrow>
      llama_n_vocab ctx = int (length (id_to_token (vocab ctx))))"
proof (intro conjI impI)
  assume "token \<ge> llama_n_vocab ctx"
  then show "llama_token_to_str ctx token = Inr None" by (simp add: llama_token_to_str_def)
next
  assume a: "0 \<le> token \<and> token < llama_n_vocab ctx"
  have "llama_n_vocab ctx \<le> int (length (id_to_token (vocab ctx)))"
    unfolding llama_n_vocab_def by (rule int_of_size_t_le)
  with a have "in_range (id_to_token (vocab ctx)) token" by (simp add: in_range_def)
  with a show "llama_token_to_str ctx token = Inr (Some (tok (id_to_token (vocab ctx) ! nat token)))"
    by (simp add: llama_token_to_str_def)
next
  assume "length (id_to_token (vocab ctx)) < 2 ^ 31"
  then show "llama_n_vocab ctx = int (length (id_to_token (vocab ctx)))"
    unfolding llama_n_vocab_def by (rule int_of_size_t_small)
qed

theorem llama_token_to_str_range_witness:
  "llama_token_to_str (example_session scenario_vocab ([] :: real list)) 15 = Inr None \<and>
   llama_token_to_str (example_session scenario_vocab ([] :: real list)) 13 = Inr (Some [0x61, 0x62, 0x63]) \<and>
   llama_n_vocab (example_session scenario_vocab ([] :: real list)) = 15"
proof -
  let ?ctx = "example_session scenario_vocab ([] :: real list)"
  have v: "vocab ?ctx = scenario_vocab" by (simp add: example_session_def)
  have l: "length (id_to_token scenario_vocab) = 15" by (simp add: scenario_vocab_def)
  have t: "tok (id_to_token scenario_vocab ! 13) = [0x61, 0x62, 0x63]"
    by (simp add: scenario_vocab_def nth_append)
  have n: "llama_n_vocab ?ctx = 15"
    using llama_token_to_str_range [where token = 0 and ctx = ?ctx] by (simp add: v l)
  show ?thesis
    using llama_token_to_str_range [where token = 15 and ctx = ?ctx]
      llama_token_to_str_range [where token = 13 and ctx = ?ctx] n
    by (simp add: v t)
qed

section \<open>Properties of the sampler\<close>

lemma argmax_fold:
  assumes "1 \<le> n" "n \<le> length pl"
  shows "\<exists>m k. fold (argmax_step pl) [1..<n] (pl ! 0, 0) = (m, int k) \<and> k < n \<and> pl ! k = m \<and>
           (\<forall>j<n. pl ! j \<le> m) \<and> (\<forall>j<k. pl ! j < m)"
  using assms
proof (induction n rule: nat_induct_at_least)
  case base
  show ?case by (auto simp: less_Suc_eq)
next
  case (Suc n)
  then obtain m k where f: "fold (argmax_step pl) [1..<n] (pl ! 0, 0) = (m, int k)"
    and k: "k < n" and m: "pl ! k = m"
    and ub: "\<forall>j<n. pl ! j \<le> m" and first: "\<forall>j<k. pl ! j < m"
    by auto
  have step: "fold (argmax_step pl) [1..<Suc n] (pl ! 0, 0) = argmax_step pl n (m, int k)"
    using Suc.hyps f by simp
  show ?case
  proof (cases "pl ! n > m")
    case True
    then have "argmax_step pl n (m, int k) = (pl ! n, int n)" by (simp add: argmax_step_def)
    moreover have "\<forall>j<Suc n. pl ! j \<le> pl ! n" using ub True by (auto simp: less_Suc_eq)
    moreover have "\<forall>j<n. pl ! j < pl ! n" using ub True by force
    ultimately show ?thesis unfolding step by auto
  next
    case False
    then have "argmax_step pl n (m, int k) = (m, int k)" by (simp add: argmax_step_def)
    moreover have "\<forall>j<Suc n. pl ! j \<le> m" using ub False by (auto simp: less_Suc_eq)
    ultimately show ?thesis unfolding step using k m first by auto
  qed
qed

lemma sample_argmax_max:
  assumes "1 \<le> n" "n \<le> length pl"
  shows "0 \<le> sample_argmax pl n \<and> nat (sample_argmax pl n) < n \<and>
         (\<forall>j<n. pl ! j \<le> pl ! nat (sample_argmax pl n)) \<and>
         (\<forall>j<nat (sample_argmax pl n). pl ! j < pl ! nat (sample_argmax pl n))"
proof -
  from argmax_fold [OF assms] obtain m k where
    "fold (argmax_step pl) [1..<n] (pl ! 0, 0) = (m, int k)" "k < n" "pl ! k = m"
    "\<forall>j<n. pl ! j \<le> m" "\<forall>j<k. pl ! j < m" by blast
  then show ?thesis by (simp add: sample_argmax_def)
qed

lemma sample_greedy_eq:
  assumes "temp \<le> 0" "1 \<le> sint (n_vocab (hparams lctx))"
    "sint (n_vocab (hparams lctx)) \<le> int (length (logits lctx))"
  shows "llama_sample_top_p_top_k expf draw lctx last_n_tokens top_k top_p temp repeat_penalty =
     Inr (sample_argmax (drop (length (logits lctx) - nat (sint (n_vocab (hparams lctx)))) (logits lctx))
            (nat (sint (n_vocab (hparams lctx)))), rng lctx)"
  using assms by (simp add: llama_sample_top_p_top_k_def Let_def)

text \<open>
  Claim C4. With \<open>temp \<le> 0\<close>, on a session whose logits vector holds at least
  \<open>n_vocab \<ge> 1\<close> entries, the sampler returns the index of the maximum of the last
  \<open>n_vocab\<close> logits (the first such index), and leaves the generator as it was. The result
  depends neither on the generator's state nor on the window of last tokens, the
  repetition penalty, \<open>top_k\<close>, \<open>top_p\<close> or the library functions: a second call with
  other values of these returns the same token.
\<close>

theorem sample_greedy:
  assumes "temp \<le> 0" and "temp' \<le> 0"
    and "1 \<le> sint (n_vocab (hparams lctx))"
    and "sint (n_vocab (hparams lctx)) \<le> int (length (logits lctx))"
    and "plogits = drop (length (logits lctx) - nat (sint (n_vocab (hparams lctx)))) (logits lctx)"
  shows "\<exists>k. llama_sample_top_p_top_k expf draw lctx last_n_tokens top_k top_p temp repeat_penalty =
             Inr (int k, rng lctx) \<and>
           k < nat (sint (n_vocab (hparams lctx))) \<and>
           (\<forall>j < nat (sint (n_vocab (hparams lctx))). plogits ! j \<le> plogits ! k) \<and>
           (\<forall>j < k. plogits ! j < plogits ! k) \<and>
           llama_sample_top_p_top_k expf' draw' (lctx\<lparr>rng := r'\<rparr>) last_n_tokens' top_k' top_p' temp'
             repeat_penalty' = Inr (int k, r')"
proof -
  define n where "n = nat (sint (n_vocab (hparams lctx)))"
  have n: "1 \<le> n" "n \<le> length plogits" using assms(3,4,5) by (simp_all add: n_def)
  define k where "k = nat (sample_argmax plogits n)"
  from sample_argmax_max [OF n] have k: "sample_argmax plogits n = int k" "k < n"
    "\<forall>j<n. plogits ! j \<le> plogits ! k" "\<forall>j<k. plogits ! j < plogits ! k"
    by (simp_all add: k_def)
  have 1: "llama_sample_top_p_top_k expf draw lctx last_n_tokens top_k top_p temp repeat_penalty =
             Inr (int k, rng lctx)"
    using sample_greedy_eq [OF assms(1,3,4)] k(1) by (simp add: n_def assms(5))
  have 2: "llama_sample_top_p_top_k expf' draw' (lctx\<lparr>rng := r'\<rparr>) last_n_tokens' top_k' top_p' temp'
             repeat_penalty' = Inr (int k, r')"
    using sample_greedy_eq [of temp' "lctx\<lparr>rng := r'\<rparr>"] assms(2,3,4) k(1) by (simp add: n_def assms(5))
  from 1 2 k show ?thesis unfolding n_def by blast
qed

theorem sample_greedy_witness:
  "llama_sample_top_p_top_k (\<lambda>x. x) (\<lambda>r ws. (0, r)) (example_session empty_vocab [- 2, 2])
     [0] 2 1 0 2 = Inr (1, 0)"
proof -
  let ?ctx = "example_session empty_vocab [- 2, 2 :: real] :: (real, nat) llama_context"
  have nv: "sint (n_vocab (hparams ?ctx)) = 2"
    by (simp add: example_session_def example_hparams_def)
  have lg: "logits ?ctx = [- 2, 2]" and r: "rng ?ctx = 0"
    by (simp_all add: example_session_def)
  have "\<exists>k. llama_sample_top_p_top_k (\<lambda>x. x) (\<lambda>r ws. (0, r)) ?ctx [0] 2 1 0 2 = Inr (int k, rng ?ctx) \<and>
           k < nat (sint (n_vocab (hparams ?ctx))) \<and>
           (\<forall>j < nat (sint (n_vocab (hparams ?ctx))). [- 2, 2 :: real] ! j \<le> [- 2, 2] ! k) \<and>
           (\<forall>j < k. [- 2, 2 :: real] ! j < [- 2, 2] ! k) \<and>
           llama_sample_top_p_top_k (\<lambda>x. x) (\<lambda>r ws. (0, r)) (?ctx\<lparr>rng := 7\<rparr>) [] 1 1 0 1 = Inr (int k, 7)"
    by (rule sample_greedy) (simp_all add: nv lg)
  then obtain k where res: "llama_sample_top_p_top_k (\<lambda>x. x) (\<lambda>r ws. (0, r)) ?ctx [0] 2 1 0 2 = Inr (int k, 0)"
    and k: "k < 2" and ub: "\<forall>j<2. [- 2, 2 :: real] ! j \<le> [- 2, 2] ! k"
    unfolding nv r by auto
  have "(1::nat) < 2" by simp
  with ub have "[- 2, 2 :: real] ! 1 \<le> [- 2, 2] ! k" by blast
  with k have "k = 1" by (cases k) simp_all
  with res show ?thesis by simp
qed



section \<open>Properties of evaluation\<close>

lemma llama_eval_internal_kv_n:
  "(llama_eval_internal ggml_graph t_begin t_end lctx tokens n_tokens n_past n_threads = Inr (lctx', ok)
      \<longrightarrow> ok \<and> kv_n (kv_self lctx') = kv_n (kv_self lctx)) \<and>
   (kv_ctx (kv_self lctx) \<and> 1 \<le> n_tokens \<and> n_tokens \<le> int (length tokens)
      \<longrightarrow> (\<exists>c. llama_eval_internal ggml_graph t_begin t_end lctx tokens n_tokens n_past n_threads
                  = Inr (c, True)))"
proof -
  define res where "res = ggml_graph lctx (take (nat n_tokens) tokens) n_past n_threads"
  define logits_out where "logits_out =
     (if logits_all lctx then take (nat (sint (n_vocab (hparams lctx)) * n_tokens)) (res_logits res)
      else take (nat (sint (n_vocab (hparams lctx))))
             (drop (nat (sint (n_vocab (hparams lctx)) * (n_tokens - 1))) (res_logits res)))"
  define embedding_out where "embedding_out =
     take (nat (sint (n_embd (hparams lctx))))
       (drop (nat (sint (n_embd (hparams lctx)) * (n_tokens - 1))) (res_embeddings res))"
  define lctx1 where "lctx1 = lctx\<lparr>kv_self := (kv_self lctx)\<lparr>kv_buf := res_kv_buf res\<rparr>,
                                          logits := logits_out,
                                          logits_capacity := resize_capacity (logits_capacity lctx)
                                             (length (logits lctx)) (length logits_out)\<rparr>"
  define lctx2 where "lctx2 = (if embedding lctx1 \<noteq> []
                                     then lctx1\<lparr>embedding := embedding_out,
                                                embedding_capacity := resize_capacity (embedding_capacity lctx1)
                                                   (length (embedding lctx1)) (length embedding_out)\<rparr>
                                     else lctx1)"
  define lctx3 where "lctx3 = (if mem_per_token lctx2 = 0
                                     then lctx2\<lparr>mem_per_token := res_used_mem res div nat n_tokens\<rparr>
                                     else lctx2)"
  define lctx4 where "lctx4 = (if n_tokens = 1
                                     then lctx3\<lparr>t_eval_us := t_eval_us lctx3 + (t_end - t_begin),
                                                n_eval := n_eval lctx3 + 1\<rparr>
                                     else if n_tokens > 1
                                     then lctx3\<lparr>t_p_eval_us := t_p_eval_us lctx3 + (t_end - t_begin),
                                                n_p_eval := n_p_eval lctx3 + n_tokens\<rparr>
                                     else lctx3)"
  have unf: "llama_eval_internal ggml_graph t_begin t_end lctx tokens n_tokens n_past n_threads =
      (if \<not> kv_ctx (kv_self lctx) then Inl AssertionFailed
         else if n_tokens < 0 \<or> int (length tokens) < n_tokens then Inl OutOfBounds
         else if \<not> logits_all lctx \<and> n_tokens < 1 then Inl OutOfBounds
         else if embedding lctx \<noteq> [] \<and> n_tokens < 1 then Inl OutOfBounds
         else if mem_per_token lctx = 0 \<and> n_tokens = 0 then Inl DivisionByZero
         else Inr (lctx4, True))"
    unfolding llama_eval_internal_def Let_def lctx4_def lctx3_def lctx2_def lctx1_def
      embedding_out_def logits_out_def res_def ..
  have k1: "kv_n (kv_self lctx1) = kv_n (kv_self lctx)" by (simp add: lctx1_def)
  have k2: "kv_self lctx2 = kv_self lctx1" by (simp add: lctx2_def)
  have k3: "kv_self lctx3 = kv_self lctx2" by (simp add: lctx3_def)
  have k4: "kv_self lctx4 = kv_self lctx3" by (simp add: lctx4_def)
  have k: "kv_n (kv_self lctx4) = kv_n (kv_self lctx)" using k1 k2 k3 k4 by simp
  have 1: "llama_eval_internal ggml_graph t_begin t_end lctx tokens n_tokens n_past n_threads = Inr (lctx', ok)
      \<longrightarrow> ok \<and> kv_n (kv_self lctx') = kv_n (kv_self lctx)"
  proof
    assume "llama_eval_internal ggml_graph t_begin t_end lctx tokens n_tokens n_past n_threads = Inr (lctx', ok)"
    then have "lctx' = lctx4 \<and> ok" unfolding unf by (simp split: if_splits)
    with k show "ok \<and> kv_n (kv_self lctx') = kv_n (kv_self lctx)" by simp
  qed
  have 2: "kv_ctx (kv_self lctx) \<and> 1 \<le> n_tokens \<and> n_tokens \<le> int (length tokens)
      \<longrightarrow> (\<exists>c. llama_eval_internal ggml_graph t_begin t_end lctx tokens n_tokens n_past n_threads
                  = Inr (c, True))"
  proof
    assume "kv_ctx (kv_self lctx) \<and> 1 \<le> n_tokens \<and> n_tokens \<le> int (length tokens)"
    then have "llama_eval_internal ggml_graph t_begin t_end lctx tokens n_tokens n_past n_threads
                  = Inr (lctx4, True)"
      unfolding unf by simp
    then show "\<exists>c. llama_eval_internal ggml_graph t_begin t_end lctx tokens n_tokens n_past n_threads
                  = Inr (c, True)" ..
  qed
  from 1 2 show ?thesis ..
qed

lemma llama_eval_result:
  assumes "llama_eval_internal ggml_graph t_begin t_end ctx tokens n_tokens n_past n_threads = Inr (ctx1, True)"
  shows "\<exists>ctx'. llama_eval ggml_graph t_begin t_end t_now ctx tokens n_tokens n_past n_threads = Inr (ctx', 0) \<and>
           kv_self ctx' = kv_self ctx1"
proof (cases "has_evaluated_once ctx1")
  case True
  with assms have "llama_eval ggml_graph t_begin t_end t_now ctx tokens n_tokens n_past n_threads = Inr (ctx1, 0)"
    by (simp add: llama_eval_def)
  then show ?thesis by simp
next
  case False
  with assms have "llama_eval ggml_graph t_begin t_end t_now ctx tokens n_tokens n_past n_threads =
      Inr (ctx1\<lparr>t_load_us := t_now - t_start_us ctx1, has_evaluated_once := True\<rparr>, 0)"
    by (simp add: llama_eval_def)
  then show ?thesis by simp
qed

text \<open>
  Claim C1 fails on the code. An evaluation of \<open>n_tokens \<ge> 1\<close> tokens on a session with a
  KV cache succeeds and leaves the counter that \<open>llama_get_kv_cache_token_count\<close> returns
  as it was: it does not add the batch length.
\<close>

theorem llama_eval_token_count_unchanged:
  assumes "kv_ctx (kv_self ctx)" and "1 \<le> n_tokens" and "n_tokens \<le> int (length tokens)"
  shows "\<exists>ctx'. llama_eval ggml_graph t_begin t_end t_now ctx tokens n_tokens n_past n_threads = Inr (ctx', 0) \<and>
           llama_get_kv_cache_token_count ctx' = llama_get_kv_cache_token_count ctx"
proof -
  from assms llama_eval_internal_kv_n [of ggml_graph t_begin t_end ctx tokens n_tokens n_past n_threads]
  obtain c where c: "llama_eval_internal ggml_graph t_begin t_end ctx tokens n_tokens n_past n_threads = Inr (c, True)"
    by blast
  with llama_eval_internal_kv_n [of ggml_graph t_begin t_end ctx tokens n_tokens n_past n_threads c True]
  have k: "kv_n (kv_self c) = kv_n (kv_self ctx)" by simp
  from llama_eval_result [OF c] obtain ctx' where
    "llama_eval ggml_graph t_begin t_end t_now ctx tokens n_tokens n_past n_threads = Inr (ctx', 0)"
    "kv_self ctx' = kv_self c" by blast
  with k show ?thesis by (auto simp: llama_get_kv_cache_token_count_def)
qed

theorem llama_eval_token_count_unchanged_witness:
  "\<exists>ctx'. llama_eval (\<lambda>c ts p th. \<lparr>res_kv_buf = kv_buf (kv_self c), res_logits = [0, 0, 0, 0, 0, 0],
                                    res_embeddings = [], res_used_mem = 0\<rparr>) 0 1 2
            (example_session empty_vocab [0, 0 :: real]) [1, 2, 3] 3 0 1 = Inr (ctx', 0) \<and>
          llama_get_kv_cache_token_count ctx' = 0"
proof -
  let ?ctx = "example_session empty_vocab [0, 0 :: real] :: (real, nat) llama_context"
  have "kv_ctx (kv_self ?ctx)" and z: "llama_get_kv_cache_token_count ?ctx = 0"
    by (simp_all add: example_session_def llama_get_kv_cache_token_count_def)
  then show ?thesis
    using llama_eval_token_count_unchanged [where ctx = ?ctx and n_tokens = 3 and tokens = "[1, 2, 3]"
        and t_begin = 0 and t_end = 1 and t_now = 2 and n_past = 0 and n_threads = 1
        and ggml_graph = "\<lambda>c ts p th. \<lparr>res_kv_buf = kv_buf (kv_self c), res_logits = [0, 0, 0, 0, 0, 0],
                                    res_embeddings = [], res_used_mem = 0\<rparr>"]
    by simp
qed

section \<open>Properties of quantization\<close>

text \<open>
  Claim C8 fails on the code for names of five characters. For such a name \<open>rfind\<close> is
  \<open>npos\<close> and so is \<open>size() - 6\<close> in \<open>size_t\<close>: the test holds, and a two-dimensional
  tensor is quantized although its name does not end with "weight".
\<close>

theorem quantize_test_short_name:
  "quantize_test short_name_tensor \<and>
   \<not> (\<exists>p. lt_name short_name_tensor = p @ ''weight'') \<and>
   quantize_tensor ggml_quantize GGML_TYPE_Q4_0 short_name_tensor =
     Inr (GGML_TYPE_Q4_0, ggml_quantize GGML_TYPE_Q4_0 GGML_TYPE_F32 (replicate 16 0) 4 2,
          length (ggml_quantize GGML_TYPE_Q4_0 GGML_TYPE_F32 (replicate 16 0) 4 2))"
proof -
  have q: "quantize_test short_name_tensor"
    by (simp add: quantize_test_def short_name_tensor_def rfind_def npos_def)
  have n: "\<not> (\<exists>p. lt_name short_name_tensor = p @ ''weight'')"
  proof
    assume "\<exists>p. lt_name short_name_tensor = p @ ''weight''"
    then obtain p where "lt_name short_name_tensor = p @ ''weight''" ..
    then have "length (lt_name short_name_tensor) = length p + 6" by simp
    then show False by (simp add: short_name_tensor_def)
  qed
  have "quantize_tensor ggml_quantize GGML_TYPE_Q4_0 short_name_tensor =
     Inr (GGML_TYPE_Q4_0, ggml_quantize GGML_TYPE_Q4_0 GGML_TYPE_F32 (replicate 16 0) 4 2,
          length (ggml_quantize GGML_TYPE_Q4_0 GGML_TYPE_F32 (replicate 16 0) 4 2))"
    using q by (simp add: quantize_tensor_def Let_def) (simp add: short_name_tensor_def)
  with q n show ?thesis by blast
qed

section \<open>Properties of the session state as bytes\<close>

lemma length_le_bytes [simp]: "length (le_bytes k v) = k"
  by (induction k arbitrary: v) simp_all

lemma le_nat_le_bytes: "le_nat (le_bytes k v) = v mod 256 ^ k"
proof (induction k arbitrary: v)
  case 0
  show ?case by simp
next
  case (Suc k)
  have "unat (word_of_nat (v mod 256) :: byte) = v mod 256"
    by (simp only: unat_of_nat len_of_numeral_defs) simp
  then have "le_nat (le_bytes (Suc k) v) = v mod 256 + 256 * ((v div 256) mod 256 ^ k)"
    by (simp add: Suc.IH)
  also have "\<dots> = v mod 256 ^ Suc k"
    by (simp add: mod_mult2_eq)
  finally show ?case .
qed

lemma le_nat_le_bytes_8: "v < 2 ^ 64 \<Longrightarrow> le_nat (le_bytes 8 v) = v"
  by (simp add: le_nat_le_bytes)

lemma length_floats_bytes [simp]: "length (floats_bytes ws) = length ws * 4"
  by (induction ws) (simp_all add: floats_bytes_def)

lemma floats_bytes_Nil [simp]: "floats_bytes [] = []"
  by (simp add: floats_bytes_def)

lemma length_floats_of [simp]: "length (floats_of k bs) = k"
  by (induction k arbitrary: bs) simp_all

lemma bind_result_Inr [simp]: "bind_result (Inr x) f = f x"
  by (simp add: bind_result_def)

lemma bind_result_Inl [simp]: "bind_result (Inl e) f = Inl e"
  by (simp add: bind_result_def)

lemma put_ok: "length out + length bs \<le> length dest \<Longrightarrow> put dest bs out = Inr (out @ bs)"
  by (simp add: put_def)

lemma advance_ok:
  "length out + n \<le> length dest \<Longrightarrow> advance dest n out = Inr (out @ take n (drop (length out) dest))"
  by (simp add: advance_def)

lemma get_append: "length p = n \<Longrightarrow> get n (p @ r, c) = Inr (p, (r, c + n))"
  by (simp add: get_def)

lemma get_append2: "length p + length g = n \<Longrightarrow> get n (p @ g @ r, c) = Inr (p @ g, (r, c + n))"
  using get_append [of "p @ g" n r c] by simp

lemma state_size_eq:
  "llama_get_state_size ctx =
     65580 + logits_capacity ctx * 4 + length (embedding ctx) * 4 + length (kv_buf (kv_self ctx))"
  by (simp add: llama_get_state_size_def llama_get_kv_cache_size_def)

lemma length_state_blob:
  assumes "length (logits ctx) \<le> logits_capacity ctx"
    and "length (rng_write (rng ctx)) \<le> 65536"
    and "llama_get_state_size ctx \<le> length dest"
  shows "length (state_blob rng_write ctx dest) = llama_get_state_size ctx"
  using assms by (simp add: state_blob_def state_size_eq)

lemma copy_state_blob:
  assumes sz: "length (logits ctx) \<le> logits_capacity ctx"
    and rl: "length (rng_write (rng ctx)) \<le> 65536"
    and d: "llama_get_state_size ctx \<le> length dest"
  shows "llama_copy_state_data rng_write ctx dest =
           Inr (state_blob rng_write ctx dest @ drop (llama_get_state_size ctx) dest,
                llama_get_state_size ctx)"
proof -
  define rs where "rs = rng_write (rng ctx)"
  define cap where "cap = logits_capacity ctx"
  define lg where "lg = logits ctx"
  define em where "em = embedding ctx"
  define kv where "kv = kv_buf (kv_self ctx)"
  define nt where "nt = le_bytes 4 (nat (kv_n (kv_self ctx) mod 2 ^ 32))"
  define rb where "rb = rs @ replicate (64 * 1024 - length rs) 0"
  have dl: "65580 + cap * 4 + length em * 4 + length kv \<le> length dest"
    using d by (simp add: state_size_eq cap_def em_def kv_def)
  have szl: "length lg \<le> cap" using sz by (simp add: lg_def cap_def)
  have rbl: "length rb = 65536" using rl by (simp add: rb_def rs_def)
  have ntl: "length nt = 4" by (simp add: nt_def)
  define o1 where "o1 = le_bytes 8 (length rs)"
  define o2 where "o2 = o1 @ rb"
  define o3 where "o3 = o2 @ le_bytes 8 cap"
  define o4 where "o4 = o3 @ le_bytes 8 (length lg)"
  define o5 where "o5 = o4 @ floats_bytes lg @ take (cap * 4 - length lg * 4) (drop (65560 + length lg * 4) dest)"
  define o6 where "o6 = o5 @ le_bytes 8 (length em)"
  define o7 where "o7 = o6 @ floats_bytes em"
  define o8 where "o8 = o7 @ le_bytes 8 (length kv)"
  define o9 where "o9 = o8 @ nt"
  define o10 where "o10 = o9 @ kv"
  have l1: "length o1 = 8" by (simp add: o1_def)
  have l2: "length o2 = 65544" by (simp add: o2_def l1 rbl)
  have l3: "length o3 = 65552" by (simp add: o3_def l2)
  have l4: "length o4 = 65560" by (simp add: o4_def l3)
  have l5: "length o5 = 65560 + cap * 4" using dl szl by (simp add: o5_def l4)
  have l6: "length o6 = 65568 + cap * 4" by (simp add: o6_def l5)
  have l7: "length o7 = 65568 + cap * 4 + length em * 4" by (simp add: o7_def l6)
  have l8: "length o8 = 65576 + cap * 4 + length em * 4" by (simp add: o8_def l7)
  have l9: "length o9 = 65580 + cap * 4 + length em * 4" by (simp add: o9_def l8 ntl)
  have l10: "length o10 = 65580 + cap * 4 + length em * 4 + length kv" by (simp add: o10_def l9)
  have s1: "put dest (le_bytes 8 (length rs)) [] = Inr o1"
    using dl by (simp add: put_ok o1_def)
  have s2: "put dest rb o1 = Inr o2"
    using dl by (simp add: put_ok o2_def l1 rbl)
  have s3: "put dest (le_bytes 8 cap) o2 = Inr o3"
    using dl by (simp add: put_ok o3_def l2)
  have s4: "put dest (le_bytes 8 (length lg)) o3 = Inr o4"
    using dl by (simp add: put_ok o4_def l3)
  have s5: "(if length lg \<noteq> 0
             then bind_result (put dest (floats_bytes lg) o4) (\<lambda>out'. advance dest (cap * 4 - length lg * 4) out')
             else advance dest (cap * 4) o4) = Inr o5"
  proof (cases "length lg = 0")
    case True
    then show ?thesis using dl by (simp add: advance_ok l4 o5_def)
  next
    case False
    have "put dest (floats_bytes lg) o4 = Inr (o4 @ floats_bytes lg)"
      using dl szl by (simp add: put_ok l4)
    moreover have "advance dest (cap * 4 - length lg * 4) (o4 @ floats_bytes lg) =
        Inr ((o4 @ floats_bytes lg) @ take (cap * 4 - length lg * 4) (drop (65560 + length lg * 4) dest))"
      using dl szl by (simp add: advance_ok l4)
    ultimately show ?thesis using False by (simp add: o5_def)
  qed
  have s6: "put dest (le_bytes 8 (length em)) o5 = Inr o6"
    using dl by (simp add: put_ok o6_def l5)
  have s7: "(if length em \<noteq> 0 then put dest (floats_bytes em) o6 else Inr o6) = Inr o7"
    using dl by (cases em) (simp_all add: put_ok o7_def l6)
  have s8: "put dest (le_bytes 8 (length kv)) o7 = Inr o8"
    using dl by (simp add: put_ok o8_def l7)
  have s9: "put dest nt o8 = Inr o9"
    using dl by (simp add: put_ok o9_def l8 ntl)
  have s10: "(if length kv \<noteq> 0 then put dest kv o9 else Inr o9) = Inr o10"
    using dl by (simp add: put_ok o10_def l9)
  have blob: "state_blob rng_write ctx dest = o10"
    by (simp add: state_blob_def o10_def o9_def o8_def o7_def o6_def o5_def o4_def o3_def o2_def o1_def
        rb_def rs_def cap_def lg_def em_def kv_def nt_def)
  have size: "llama_get_state_size ctx = length o10"
    by (simp add: state_size_eq l10 cap_def em_def kv_def)
  note defs = rb_def rs_def cap_def lg_def em_def kv_def nt_def
  note steps = s1 [unfolded defs] s2 [unfolded defs] s3 [unfolded defs] s4 [unfolded defs]
    s5 [unfolded defs] s6 [unfolded defs] s7 [unfolded defs] s8 [unfolded defs]
    s9 [unfolded defs] s10 [unfolded defs]
  have nrl: "\<not> 64 * 1024 < length (rng_write (rng ctx))" using rl by simp
  have "llama_copy_state_data rng_write ctx dest = Inr (o10 @ drop (length o10) dest, length o10)"
    unfolding llama_copy_state_data_def Let_def llama_get_kv_cache_size_def
      llama_get_kv_cache_token_count_def
    by (simp only: nrl if_False steps bind_result_Inr size) simp
  then show ?thesis by (simp add: blob size)
qed

lemma set_state_pieces:
  fixes tgt :: "(32 word, 'rng) llama_context"
  assumes len: "length q1 = 8" "length q2 = 65536" "length q3 = 8" "length q4 = 8"
      "length q5 = cap * 4" "length q6 = 8" "length q7 = es * 4" "length q8 = 8" "length q9 = 4"
      "length q10 = kvs"
    and dec: "le_nat q1 = rsz" "le_nat q3 = cap" "le_nat q4 = sz" "le_nat q6 = es" "le_nat q8 = kvs"
    and rng: "rsz \<le> 65536" "rng_read (take rsz q2) = Some g"
    and sz: "sz \<le> cap"
    and shape: "logits_capacity tgt = cap" "embedding_capacity tgt = es"
      "length (embedding tgt) = es" "length (kv_buf (kv_self tgt)) = kvs"
  shows "\<exists>res. llama_set_state_data rng_read tgt (q1 @ q2 @ q3 @ q4 @ q5 @ q6 @ q7 @ q8 @ q9 @ q10 @ rest) =
           Inr (res, 65580 + cap * 4 + es * 4 + kvs)"
proof -
  have nrl: "\<not> 64 * 1024 < rsz" using rng(1) by simp
  have avail: "\<not> (sz \<noteq> 0 \<and> length (q5 @ q6 @ q7 @ q8 @ q9 @ q10 @ rest) < sz * 4)"
    using sz len(5) by simp
  have rc: "resize_capacity cap n sz = cap" for n using sz by (simp add: resize_capacity_def)
  show ?thesis
  proof (cases "sz = 0"; cases "es = 0"; cases "kvs = 0")
  qed (use len dec rng sz shape nrl rc in
      \<open>simp_all add: llama_set_state_data_def get_append state_size_eq resize_capacity_def\<close>)
qed

lemma bind_resultE:
  assumes "bind_result m f = Inr y"
  obtains x where "m = Inr x" "f x = Inr y"
  using assms by (cases m) simp_all

lemma copy_state_written:
  assumes "llama_copy_state_data rng_write ctx dest = Inr (dest', written)"
  shows "written = llama_get_state_size ctx"
  using assms unfolding llama_copy_state_data_def Let_def
  by (auto split: if_splits elim!: bind_resultE)

lemma set_state_read:
  assumes "llama_set_state_data rng_read ctx src = Inr (ctx', nread)"
  shows "nread = llama_get_state_size ctx'"
  using assms unfolding llama_set_state_data_def Let_def
  by (auto split: if_splits option.splits prod.splits elim!: bind_resultE)

text \<open>
  Claim C3. Take a session whose logits fit their capacity, whose generator serialises
  to at most 64 KiB of text that reads back, and whose state size is a \<open>size_t\<close>; a
  destination of at least that size; and a target session of the same shape (logits
  capacity, embedding size equal to its capacity, KV buffer size). Then
  \<open>llama_copy_state_data\<close> succeeds and returns \<open>llama_get_state_size\<close>, the destination
  keeps its length, and \<open>llama_set_state_data\<close> on the target reads the bytes written,
  succeeds and returns the same number, which is also the state size of the target
  before and after. Whenever one of the two functions returns, the number it returns is
  the state size of its session.
\<close>

theorem state_size_roundtrip:
  fixes ctx tgt :: "(32 word, 'rng) llama_context"
  assumes vec: "length (logits ctx) \<le> logits_capacity ctx"
    and rl: "length (rng_write (rng ctx)) \<le> 65536"
    and rr: "rng_read (rng_write (rng ctx)) = Some g"
    and d: "llama_get_state_size ctx \<le> length dest"
    and small: "llama_get_state_size ctx < 2 ^ 64"
    and shape: "logits_capacity tgt = logits_capacity ctx"
      "length (embedding tgt) = length (embedding ctx)"
      "embedding_capacity tgt = length (embedding tgt)"
      "length (kv_buf (kv_self tgt)) = length (kv_buf (kv_self ctx))"
  shows "(\<exists>dest' res.
            llama_copy_state_data rng_write ctx dest = Inr (dest', llama_get_state_size ctx) \<and>
            length dest' = length dest \<and>
            llama_set_state_data rng_read tgt dest' = Inr (res, llama_get_state_size ctx) \<and>
            llama_get_state_size res = llama_get_state_size ctx) \<and>
         llama_get_state_size tgt = llama_get_state_size ctx \<and>
         (\<forall>buf d w. llama_copy_state_data rng_write ctx buf = Inr (d, w) \<longrightarrow> w = llama_get_state_size ctx) \<and>
         (\<forall>src c n. llama_set_state_data rng_read tgt src = Inr (c, n) \<longrightarrow> n = llama_get_state_size c)"
proof -
  define S where "S = llama_get_state_size ctx"
  define blob where "blob = state_blob rng_write ctx dest"
  define dest' where "dest' = blob @ drop S dest"
  have S: "S = 65580 + logits_capacity ctx * 4 + length (embedding ctx) * 4 + length (kv_buf (kv_self ctx))"
    by (simp add: S_def state_size_eq)
  have copy: "llama_copy_state_data rng_write ctx dest = Inr (dest', S)"
    unfolding dest'_def blob_def S_def using vec rl d by (rule copy_state_blob)
  have bl: "length blob = S"
    unfolding blob_def S_def using vec rl d by (rule length_state_blob)
  have len: "length dest' = length dest" using d bl by (simp add: dest'_def S_def)
  have b64: "length (rng_write (rng ctx)) < 2 ^ 64" "logits_capacity ctx < 2 ^ 64"
    "length (logits ctx) < 2 ^ 64" "length (embedding ctx) < 2 ^ 64"
    "length (kv_buf (kv_self ctx)) < 2 ^ 64"
    using small vec rl unfolding S_def [symmetric] S by simp_all
  have gap: "length (floats_bytes (logits ctx) @
       take (logits_capacity ctx * 4 - length (logits ctx) * 4)
         (drop (65560 + length (logits ctx) * 4) dest)) = logits_capacity ctx * 4"
    using vec d unfolding S_def [symmetric] S by simp
  have split: "dest' =
      le_bytes 8 (length (rng_write (rng ctx))) @
      (rng_write (rng ctx) @ replicate (65536 - length (rng_write (rng ctx))) 0) @
      le_bytes 8 (logits_capacity ctx) @
      le_bytes 8 (length (logits ctx)) @
      (floats_bytes (logits ctx) @
       take (logits_capacity ctx * 4 - length (logits ctx) * 4)
         (drop (65560 + length (logits ctx) * 4) dest)) @
      le_bytes 8 (length (embedding ctx)) @
      floats_bytes (embedding ctx) @
      le_bytes 8 (length (kv_buf (kv_self ctx))) @
      le_bytes 4 (nat (kv_n (kv_self ctx) mod 2 ^ 32)) @
      kv_buf (kv_self ctx) @ drop S dest"
    by (simp add: dest'_def blob_def state_blob_def)
  have "\<exists>res. llama_set_state_data rng_read tgt dest' =
      Inr (res, 65580 + logits_capacity ctx * 4 + length (embedding ctx) * 4 + length (kv_buf (kv_self ctx)))"
    unfolding split
  proof (rule set_state_pieces [where rsz = "length (rng_write (rng ctx))"
        and sz = "length (logits ctx)" and g = g])
    show "length (floats_bytes (logits ctx) @
       take (logits_capacity ctx * 4 - length (logits ctx) * 4)
         (drop (65560 + length (logits ctx) * 4) dest)) = logits_capacity ctx * 4"
      by (rule gap)
    show "rng_read (take (length (rng_write (rng ctx)))
        (rng_write (rng ctx) @ replicate (65536 - length (rng_write (rng ctx))) 0)) = Some g"
      using rr by simp
  qed (use rl vec shape b64 in \<open>simp_all add: le_nat_le_bytes_8\<close>)
  then obtain res where set: "llama_set_state_data rng_read tgt dest' = Inr (res, S)"
    unfolding S by blast
  from set_state_read [OF set] have s3: "llama_get_state_size res = S" by simp
  have s2: "llama_get_state_size tgt = S"
    using shape by (simp add: S state_size_eq)
  have inv1: "\<forall>buf d w. llama_copy_state_data rng_write ctx buf = Inr (d, w) \<longrightarrow> w = S"
    unfolding S_def by (blast dest: copy_state_written)
  have inv2: "\<forall>src c n. llama_set_state_data rng_read tgt src = Inr (c, n) \<longrightarrow> n = llama_get_state_size c"
    by (blast dest: set_state_read)
  from copy len set s3 s2 inv1 inv2 show ?thesis unfolding S_def by blast
qed

theorem state_size_roundtrip_witness:
  "\<exists>dest' res.
     llama_copy_state_data (\<lambda>n. le_bytes 4 n) (example_session empty_vocab [1, 2]) (replicate 65604 0)
       = Inr (dest', 65604) \<and>
     llama_set_state_data (\<lambda>bs. Some (le_nat bs)) (example_session empty_vocab [1, 2]) dest'
       = Inr (res, 65604) \<and>
     llama_get_state_size (example_session empty_vocab [1, 2 :: 32 word] :: (32 word, nat) llama_context) = 65604"
proof -
  let ?ctx = "example_session empty_vocab [1, 2 :: 32 word] :: (32 word, nat) llama_context"
  have S: "llama_get_state_size ?ctx = 65604"
    by (simp add: state_size_eq example_session_def)
  have f: "logits ?ctx = [1, 2]" "logits_capacity ?ctx = 2" "embedding ?ctx = []"
    "embedding_capacity ?ctx = 0" "rng ?ctx = 0"
    by (simp_all add: example_session_def)
  show ?thesis
    using state_size_roundtrip [where ctx = ?ctx and tgt = ?ctx and rng_write = "\<lambda>n. le_bytes 4 n"
        and rng_read = "\<lambda>bs. Some (le_nat bs)" and dest = "replicate 65604 0" and g = 0]
    by (simp add: S f le_nat_le_bytes) blast
qed

end
